theory Spec2Isabelle
  imports Main "HOL-Library.Multiset" "HOL-Library.Product_Lexorder"
begin

section \<open>The job tracker of \<^verbatim>\<open>src/app/app.py\<close>\<close>

text \<open>
  The application is one Flask module: a table \<^verbatim>\<open>Job\<close>, a form \<^verbatim>\<open>JobForm\<close> and eight view
  functions. The embedding keeps the module's names. What the module takes from its
  libraries is written out where a view function depends on it, each definition naming the
  library call it stands for:
  \<^item> a Python \<^verbatim>\<open>str\<close> is a \<open>string\<close>, a character being its code point (below 256);
  \<^item> a \<^verbatim>\<open>datetime.date\<close> is the triple (year, month, day), ordered lexicographically as
    dates are;
  \<^item> the table is the list of its rows in insertion order;
  \<^item> the clock, the date parser of \<^verbatim>\<open>DateField\<close> and the database's \<^verbatim>\<open>ORDER BY\<close> are
    parameters, collected in the record \<open>env\<close>;
  \<^item> a request carries its method, its form fields and query arguments (each name with
    the list of values sent under it) and whether its CSRF token checks.
\<close>

subsection \<open>Constants and the table\<close>

type_synonym date = "nat \<times> nat \<times> nat"

type_synonym timestamp = nat

definition STATUS_CHOICES :: "(string \<times> string) list" where
  "STATUS_CHOICES =
     [(''Waiting for Response'', ''Waiting for Response''),
      (''Interviewing'', ''Interviewing''),
      (''Rejected Application'', ''Rejected Application''),
      (''Ghosted Application'', ''Ghosted Application'')]"

definition RESUME_CHOICES :: "(string \<times> string) list" where
  "RESUME_CHOICES = [(''Default Resume'', ''Default Resume'')]"

text \<open>
  \<^verbatim>\<open>class Job(db.Model)\<close>: the columns declared \<^verbatim>\<open>nullable=False\<close> hold a value, the others
  may be NULL. The primary key \<^verbatim>\<open>id\<close> is \<open>job_id\<close> here (\<open>id\<close> is the identity of HOL)
  and the column \<^verbatim>\<open>notes\<close> is \<open>job_notes\<close> (\<open>notes\<close> is a keyword).
\<close>

record job =
  job_id :: nat
  application_date :: date
  status :: string
  company :: string
  position :: string
  resume_used :: string
  job_url :: "string option"
  job_description :: "string option"
  job_notes :: "string option"
  salary :: "string option"
  created_at :: "timestamp option"

datatype exception = IntegrityError | OperationalError | OverflowError

text \<open>
  What the module reads from outside itself: \<^verbatim>\<open>date.today()\<close>, the database's
  \<^verbatim>\<open>current_timestamp()\<close>, the \<^verbatim>\<open>strptime\<close> of the date field, the database's evaluation of
  \<^verbatim>\<open>ORDER BY application_date DESC\<close> on the selected rows, and the outcome of connecting
  and running \<^verbatim>\<open>SELECT 1\<close>.
\<close>

record env =
  today :: date
  current_timestamp :: timestamp
  strptime :: "string \<Rightarrow> date option"
  order_by_desc :: "job list \<Rightarrow> job list"
  select_1 :: "exception + unit"

datatype http_method = GET | HEAD | POST | PUT | DELETE | CONNECT | OPTIONS | TRACE | PATCH

record request =
  request_method :: http_method
  form :: "string \<Rightarrow> string list"
  args :: "string \<Rightarrow> string list"
  csrf_token_valid :: bool

subsection \<open>The form\<close>

text \<open>
  \<^verbatim>\<open>class JobForm(FlaskForm)\<close>. Each field of the form has its \<^verbatim>\<open>data\<close>; \<open>errors\<close> lists the
  names of the fields that failed validation, in the order of the class.
\<close>

record JobForm =
  application_date_data :: "date option"
  status_data :: "string option"
  company_data :: "string option"
  position_data :: "string option"
  resume_used_data :: "string option"
  job_url_data :: "string option"
  job_description_data :: "string option"
  notes_data :: "string option"
  salary_data :: "string option"
  errors :: "string list"

text \<open>\<^verbatim>\<open>str.isspace\<close> on the code points below 256, and \<^verbatim>\<open>str.strip()\<close>.\<close>

definition isspace :: "char \<Rightarrow> bool" where
  "isspace c =
     (let n = (of_char c :: nat)
      in (9 \<le> n \<and> n \<le> 13) \<or> (28 \<le> n \<and> n \<le> 32) \<or> n = 133 \<or> n = 160)"

definition strip :: "string \<Rightarrow> string" where
  "strip s = rev (dropWhile isspace (rev (dropWhile isspace s)))"

text \<open>
  \<^verbatim>\<open>valuelist[0] if valuelist else None\<close>, the \<^verbatim>\<open>process_formdata\<close> of a string field in
  WTForms 3: the first value sent under the field's name, \<^verbatim>\<open>None\<close> when none was sent. A
  select field coerces the first value to \<^verbatim>\<open>str\<close> and keeps its default \<^verbatim>\<open>None\<close> when none was
  sent, which is the same function.
\<close>

definition first_value :: "string list \<Rightarrow> string option" where
  "first_value valuelist = (case valuelist of [] \<Rightarrow> None | v # _ \<Rightarrow> Some v)"

text \<open>\<^verbatim>\<open>" ".join(valuelist)\<close>\<close>

fun join_space :: "string list \<Rightarrow> string" where
  "join_space [] = []"
| "join_space [v] = v"
| "join_space (v # w # vs) = v @ '' '' @ join_space (w # vs)"

text \<open>
  \<^verbatim>\<open>DateField(validators=[DataRequired()], default=date.today)\<close>. The field first takes its
  default; \<^verbatim>\<open>process_formdata\<close> returns at once on an empty value list, so a form that does
  not send the field keeps the default, and otherwise parses the joined values, the data
  being \<^verbatim>\<open>None\<close> when they do not parse.
\<close>

definition DateField_process :: "env \<Rightarrow> string list \<Rightarrow> date option" where
  "DateField_process e valuelist =
     (if valuelist = [] then Some (today e) else strptime e (join_space valuelist))"

text \<open>
  \<^verbatim>\<open>DataRequired\<close>: \<^verbatim>\<open>field.data and (not isinstance(field.data, str) or field.data.strip())\<close>.
  A date is always truthy; a string is truthy when it is not empty.
\<close>

definition DataRequired_date :: "date option \<Rightarrow> bool" where
  "DataRequired_date d = (d \<noteq> None)"

definition DataRequired_str :: "string option \<Rightarrow> bool" where
  "DataRequired_str d = (case d of None \<Rightarrow> False | Some s \<Rightarrow> s \<noteq> [] \<and> strip s \<noteq> [])"

text \<open>\<^verbatim>\<open>SelectField.pre_validate\<close>: the data is the value of one of the choices.\<close>

definition valid_choice :: "(string \<times> string) list \<Rightarrow> string option \<Rightarrow> bool" where
  "valid_choice choices d = (case d of None \<Rightarrow> False | Some v \<Rightarrow> v \<in> set (map fst choices))"

text \<open>
  \<^verbatim>\<open>form.is_submitted()\<close>: the method of the request is one of Flask-WTF's submit methods.
  The routes of the two forms let GET, HEAD and POST reach the view function.
\<close>

definition is_submitted :: "request \<Rightarrow> bool" where
  "is_submitted r = (request_method r \<in> {POST, PUT, PATCH, DELETE})"

text \<open>
  \<^verbatim>\<open>JobForm()\<close>: on a submitted request every field is processed from the form data of the
  request, and otherwise holds its default (today for the date, \<^verbatim>\<open>None\<close> for the rest).
\<close>

definition JobForm_init :: "env \<Rightarrow> request \<Rightarrow> JobForm" where
  "JobForm_init e r =
     (if is_submitted r then
        \<lparr> application_date_data = DateField_process e (form r ''application_date''),
          status_data = first_value (form r ''status''),
          company_data = first_value (form r ''company''),
          position_data = first_value (form r ''position''),
          resume_used_data = first_value (form r ''resume_used''),
          job_url_data = first_value (form r ''job_url''),
          job_description_data = first_value (form r ''job_description''),
          notes_data = first_value (form r ''notes''),
          salary_data = first_value (form r ''salary''),
          errors = [] \<rparr>
      else
        \<lparr> application_date_data = Some (today e),
          status_data = None, company_data = None, position_data = None,
          resume_used_data = None, job_url_data = None, job_description_data = None,
          notes_data = None, salary_data = None, errors = [] \<rparr>)"

text \<open>
  \<^verbatim>\<open>form.validate()\<close> runs every field's validators and collects the failures: the date and
  the two names are required, the two select fields must hold one of their choices
  (\<^verbatim>\<open>resume_used\<close> is required too), the four \<^verbatim>\<open>Optional()\<close> fields never fail, and the CSRF
  token of \<^verbatim>\<open>FlaskForm\<close> must check.
\<close>

definition field_errors :: "request \<Rightarrow> JobForm \<Rightarrow> string list" where
  "field_errors r f =
     (if DataRequired_date (application_date_data f) then [] else [''application_date'']) @
     (if valid_choice STATUS_CHOICES (status_data f) then [] else [''status'']) @
     (if DataRequired_str (company_data f) then [] else [''company'']) @
     (if DataRequired_str (position_data f) then [] else [''position'']) @
     (if valid_choice RESUME_CHOICES (resume_used_data f) \<and> DataRequired_str (resume_used_data f)
      then [] else [''resume_used'']) @
     (if csrf_token_valid r then [] else [''csrf_token''])"

definition validate :: "request \<Rightarrow> JobForm \<Rightarrow> JobForm" where
  "validate r f = f\<lparr>errors := field_errors r f\<rparr>"

text \<open>\<^verbatim>\<open>form.validate_on_submit()\<close>: the validated form and whether it passed.\<close>

definition validate_on_submit :: "request \<Rightarrow> JobForm \<Rightarrow> bool \<times> JobForm" where
  "validate_on_submit r f =
     (if is_submitted r then (field_errors r f = [], validate r f) else (False, f))"

subsection \<open>The table's operations\<close>

text \<open>
  The columns that are \<^verbatim>\<open>nullable=False\<close>, read from a form: the database refuses a row
  that lacks one of them.
\<close>

definition not_null :: "JobForm \<Rightarrow> (date \<times> string \<times> string \<times> string \<times> string) option" where
  "not_null f =
     (case application_date_data f of None \<Rightarrow> None | Some d \<Rightarrow>
     (case status_data f of None \<Rightarrow> None | Some s \<Rightarrow>
     (case company_data f of None \<Rightarrow> None | Some c \<Rightarrow>
     (case position_data f of None \<Rightarrow> None | Some p \<Rightarrow>
     (case resume_used_data f of None \<Rightarrow> None | Some u \<Rightarrow> Some (d, s, c, p, u))))))"

text \<open>The integer primary key of a new row: one more than the largest in the table.\<close>

definition next_id :: "job list \<Rightarrow> nat" where
  "next_id rows = Suc (fold max (map job_id rows) 0)"

text \<open>
  \<^verbatim>\<open>db.session.add(Job(...)); db.session.commit()\<close>: the row gets its key and the column
  default of \<^verbatim>\<open>created_at\<close>.
\<close>

definition session_add :: "env \<Rightarrow> JobForm \<Rightarrow> job list \<Rightarrow> exception + job list" where
  "session_add e f rows =
     (case not_null f of
        None \<Rightarrow> Inl IntegrityError
      | Some (d, s, c, p, u) \<Rightarrow>
          Inr (rows @
            [\<lparr> job_id = next_id rows, application_date = d, status = s, company = c,
               position = p, resume_used = u, job_url = job_url_data f,
               job_description = job_description_data f, job_notes = notes_data f,
               salary = salary_data f, created_at = Some (current_timestamp e) \<rparr>]))"

text \<open>The nine assignments of \<^verbatim>\<open>job_edit\<close> to the fetched row.\<close>

definition assign_fields :: "JobForm \<Rightarrow> job \<Rightarrow> exception + job" where
  "assign_fields f j =
     (case not_null f of
        None \<Rightarrow> Inl IntegrityError
      | Some (d, s, c, p, u) \<Rightarrow>
          Inr (j\<lparr> application_date := d, status := s, company := c, position := p,
                 resume_used := u, job_url := job_url_data f,
                 job_description := job_description_data f, job_notes := notes_data f,
                 salary := salary_data f \<rparr>))"

text \<open>\<^verbatim>\<open>db.session.commit()\<close> after the assignments: the row of that key is rewritten.\<close>

definition session_update :: "nat \<Rightarrow> job \<Rightarrow> job list \<Rightarrow> job list" where
  "session_update i j' rows = map (\<lambda>j. if job_id j = i then j' else j) rows"

text \<open>The row of the table with that primary key, which \<^verbatim>\<open>Job.query.get\<close> selects.\<close>

definition query_get :: "nat \<Rightarrow> job list \<Rightarrow> job option" where
  "query_get i rows = find (\<lambda>j. job_id j = i) rows"

text \<open>
  \<^verbatim>\<open>Job.query.get_or_404(job_id)\<close>: the row, or \<^verbatim>\<open>abort(404)\<close> when the query finds none. The
  keys of a SQLite table are 64-bit signed integers, and the database driver refuses to
  bind a larger integer to the query: it raises \<^verbatim>\<open>OverflowError\<close>, which nothing catches. A
  key of \<open>2 ^ 63\<close> or more is the key of no row of a table SQLite holds; the lookup is
  written first, so that what is proved of a row in the table needs no bound on its key.
\<close>

definition get_or_404 :: "nat \<Rightarrow> job list \<Rightarrow> exception + job option" where
  "get_or_404 i rows =
     (case query_get i rows of
        Some j \<Rightarrow> Inr (Some j)
      | None \<Rightarrow> if 2 ^ 63 \<le> i then Inl OverflowError else Inr None)"

text \<open>\<^verbatim>\<open>Job.query.filter_by(status=s)\<close>\<close>

definition filter_by_status :: "string \<Rightarrow> job list \<Rightarrow> job list" where
  "filter_by_status s rows = filter (\<lambda>j. status j = s) rows"

subsection \<open>Responses\<close>

text \<open>The endpoints, one for each view function, named after it.\<close>

datatype endpoint =
    home_ep | jobs_ep | add_job_ep | job_details_ep | job_edit_ep
  | test_page_ep | health_live_ep | health_readiness_ep

text \<open>The templates, each with the arguments its view function passes (the title apart).\<close>

datatype template =
    dashboard_html nat "job list" "string \<Rightarrow> nat option"
  | jobs_html "job list"
  | add_job_html JobForm
  | job_details_html job nat
  | edit_job_html JobForm job nat

text \<open>
  A view function renders a template, redirects to \<^verbatim>\<open>url_for\<close> an endpoint and its
  arguments, aborts with a status, returns a body with a status, or lets an exception
  escape.
\<close>

datatype response =
    render_template template
  | redirect endpoint "nat list"
  | abort nat
  | body string nat
  | raised exception

subsection \<open>The view functions\<close>

text \<open>The three values \<^verbatim>\<open>home\<close> computes, under the names of its variables.\<close>

definition total_jobs :: "job list \<Rightarrow> nat" where
  "total_jobs rows = length rows"

definition recent_jobs :: "env \<Rightarrow> job list \<Rightarrow> job list" where
  "recent_jobs e rows = take 5 (order_by_desc e rows)"

definition statuses :: "job list \<Rightarrow> string \<Rightarrow> nat option" where
  "statuses rows =
     fold (\<lambda>status_choice statuses.
             let s = fst status_choice;
                 count = length (filter_by_status s rows)
             in if count > 0 then statuses(s \<mapsto> count) else statuses)
          STATUS_CHOICES Map.empty"

definition home :: "env \<Rightarrow> job list \<Rightarrow> response" where
  "home e rows =
     render_template (dashboard_html (total_jobs rows) (recent_jobs e rows) (statuses rows))"

text \<open>\<^verbatim>\<open>request.args.get('status')\<close>: the first value sent under the name, or \<^verbatim>\<open>None\<close>.\<close>

definition args_get :: "request \<Rightarrow> string \<Rightarrow> string option" where
  "args_get r name = first_value (args r name)"

definition jobs :: "env \<Rightarrow> request \<Rightarrow> job list \<Rightarrow> response" where
  "jobs e r rows =
     (let status_filter = args_get r ''status'';
          all_jobs =
            (case status_filter of
               None \<Rightarrow> order_by_desc e rows
             | Some v \<Rightarrow>
                 if v \<noteq> [] then order_by_desc e (filter_by_status v rows)
                 else order_by_desc e rows)
      in render_template (jobs_html all_jobs))"

definition add_job :: "env \<Rightarrow> request \<Rightarrow> job list \<Rightarrow> response \<times> job list" where
  "add_job e r rows =
     (let (ok, form) = validate_on_submit r (JobForm_init e r)
      in if ok then
           (case session_add e form rows of
              Inl x \<Rightarrow> (raised x, rows)
            | Inr rows' \<Rightarrow> (redirect jobs_ep [], rows'))
         else (render_template (add_job_html form), rows))"

definition job_details :: "nat \<Rightarrow> job list \<Rightarrow> response" where
  "job_details i rows =
     (case get_or_404 i rows of
        Inl x \<Rightarrow> raised x
      | Inr None \<Rightarrow> abort 404
      | Inr (Some j) \<Rightarrow> render_template (job_details_html j i))"

text \<open>The assignments of \<^verbatim>\<open>job_edit\<close> that fill the form from the row on a GET request.\<close>

definition prepopulate :: "job \<Rightarrow> JobForm \<Rightarrow> JobForm" where
  "prepopulate j f =
     f\<lparr> application_date_data := Some (application_date j),
        status_data := Some (status j),
        company_data := Some (company j),
        position_data := Some (position j),
        resume_used_data := Some (resume_used j),
        job_url_data := job_url j,
        job_description_data := job_description j,
        notes_data := job_notes j,
        salary_data := salary j \<rparr>"

definition job_edit :: "env \<Rightarrow> request \<Rightarrow> nat \<Rightarrow> job list \<Rightarrow> response \<times> job list" where
  "job_edit e r i rows =
     (case get_or_404 i rows of
        Inl x \<Rightarrow> (raised x, rows)
      | Inr None \<Rightarrow> (abort 404, rows)
      | Inr (Some j) \<Rightarrow>
          let (ok, form) = validate_on_submit r (JobForm_init e r)
          in if ok then
               (case assign_fields form j of
                  Inl x \<Rightarrow> (raised x, rows)
                | Inr j' \<Rightarrow> (redirect job_details_ep [i], session_update i j' rows))
             else
               (render_template
                  (edit_job_html (if \<not> is_submitted r then prepopulate j form else form) j i),
                rows))"

definition test_page :: response where
  "test_page = body ''This page is only a test'' 200"

definition health_live :: response where
  "health_live = body ''OK'' 200"

definition health_readiness :: "env \<Rightarrow> response" where
  "health_readiness e =
     (case select_1 e of
        Inr _ \<Rightarrow> body ''OK'' 200
      | Inl _ \<Rightarrow> body ''Not Ready'' 500)"

subsection \<open>The routes\<close>

text \<open>
  A path is matched without its leading slashes and split at its slashes: \<^verbatim>\<open>/\<close> is the one
  empty part, \<^verbatim>\<open>/jobs\<close> is the part \<^verbatim>\<open>jobs\<close>, and \<^verbatim>\<open>/jobs/\<close> is \<^verbatim>\<open>jobs\<close> and an empty part. A
  rule of the URL map is a path split the same way, each part a literal, the converter
  \<^verbatim>\<open><int:job_id>\<close> or the converter \<^verbatim>\<open><path:filename>\<close>, with its methods and its endpoint.
\<close>

datatype segment = Lit string | IntConverter | PathConverter

text \<open>
  The endpoint of a rule is a view function of the module or Flask's own view of the
  static folder, which sends the file of that name. A converter passes what it converts:
  a key or a file name.
\<close>

datatype rule_endpoint = static_endpoint | view_function endpoint

datatype view_arg = job_id_arg nat | filename_arg string

text \<open>
  \<^verbatim>\<open>app.add_url_rule\<close>: a rule gets the methods it is given, \<^verbatim>\<open>OPTIONS\<close> when they lack it
  (Flask answers it itself) and \<^verbatim>\<open>HEAD\<close> when they have \<^verbatim>\<open>GET\<close>.
\<close>

definition add_url_rule ::
  "segment list \<Rightarrow> http_method list \<Rightarrow> rule_endpoint \<Rightarrow>
   segment list \<times> http_method list \<times> rule_endpoint" where
  "add_url_rule rule methods ep =
     (rule,
      methods @ (if OPTIONS \<notin> set methods then [OPTIONS] else [])
              @ (if GET \<in> set methods \<and> HEAD \<notin> set methods then [HEAD] else []),
      ep)"

text \<open>
  The URL map: the rule \<^verbatim>\<open>/static/<path:filename>\<close> that \<^verbatim>\<open>Flask(__name__)\<close> registers for
  the static folder, then the rules of the eight \<^verbatim>\<open>@app.route\<close> decorators in the order of
  the module, with the methods each decorator names (GET when it names none).
\<close>

definition url_map :: "(segment list \<times> http_method list \<times> rule_endpoint) list" where
  "url_map =
     [add_url_rule [Lit ''static'', PathConverter] [GET] static_endpoint,
      add_url_rule [Lit []] [GET] (view_function home_ep),
      add_url_rule [Lit ''jobs''] [GET] (view_function jobs_ep),
      add_url_rule [Lit ''add-job''] [GET, POST] (view_function add_job_ep),
      add_url_rule [Lit ''job'', IntConverter] [GET] (view_function job_details_ep),
      add_url_rule [Lit ''job'', IntConverter, Lit ''edit''] [GET, POST]
        (view_function job_edit_ep),
      add_url_rule [Lit ''testpage''] [GET] (view_function test_page_ep),
      add_url_rule [Lit ''healthz'', Lit ''live''] [GET] (view_function health_live_ep),
      add_url_rule [Lit ''healthz'', Lit ''readiness''] [GET]
        (view_function health_readiness_ep)]"

text \<open>The integer converter accepts one or more decimal digits and reads them in base ten.\<close>

definition isdigit :: "char \<Rightarrow> bool" where
  "isdigit c = (48 \<le> (of_char c :: nat) \<and> (of_char c :: nat) \<le> 57)"

definition int_converter :: "string \<Rightarrow> nat option" where
  "int_converter x =
     (if x \<noteq> [] \<and> list_all isdigit x
      then Some (fold (\<lambda>c n. 10 * n + (of_char c - 48)) x 0) else None)"

text \<open>\<^verbatim>\<open>"/".join(parts)\<close>\<close>

fun join_slash :: "string list \<Rightarrow> string" where
  "join_slash [] = []"
| "join_slash [v] = v"
| "join_slash (v # w # vs) = v @ ''/'' @ join_slash (w # vs)"

text \<open>
  The path converter takes all the parts that are left, joined by slashes again. Its
  pattern is \<^verbatim>\<open>[^/].*?\<close>: a first character that is not a slash, then any characters but
  line feeds.
\<close>

definition path_converter :: "string list \<Rightarrow> string option" where
  "path_converter parts =
     (case join_slash parts of
        [] \<Rightarrow> None
      | c # cs \<Rightarrow> if c \<noteq> CHR ''/'' \<and> CHR 0x0A \<notin> set cs then Some (c # cs) else None)"

fun match_path :: "segment list \<Rightarrow> string list \<Rightarrow> view_arg list option" where
  "match_path [] [] = Some []"
| "match_path [PathConverter] xs = map_option (\<lambda>v. [filename_arg v]) (path_converter xs)"
| "match_path (Lit s # ps) (x # xs) = (if s = x then match_path ps xs else None)"
| "match_path (IntConverter # ps) (x # xs) =
     (case int_converter x of
        None \<Rightarrow> None
      | Some n \<Rightarrow> map_option ((#) (job_id_arg n)) (match_path ps xs))"
| "match_path _ _ = None"

text \<open>
  Matching a request: the first rule whose path and method both match gives the endpoint
  and the converted arguments. A request that no rule matches reaches no view: it is
  answered 404, or 405 when rules of other methods match its path, or by a redirect when
  the path with its doubled slashes merged is matched.
\<close>

fun match_rules ::
  "(segment list \<times> http_method list \<times> rule_endpoint) list \<Rightarrow> http_method \<Rightarrow> string list \<Rightarrow>
   (rule_endpoint \<times> view_arg list) option" where
  "match_rules [] m p = None"
| "match_rules ((rule, methods, ep) # rules) m p =
     (case match_path rule p of
        None \<Rightarrow> match_rules rules m p
      | Some view_args \<Rightarrow>
          if m \<in> set methods then Some (ep, view_args) else match_rules rules m p)"

definition url_match :: "http_method \<Rightarrow> string list \<Rightarrow> (rule_endpoint \<times> view_arg list) option" where
  "url_match m p = match_rules url_map m p"

text \<open>
  Calling the view function of an endpoint with the converted arguments, which Flask
  does for every routed request but an OPTIONS request: that one it answers itself, with
  the methods of the rule. The two rules with an integer converter pass one argument; a
  call with another number of arguments would be a \<^verbatim>\<open>TypeError\<close>, answered 500.
\<close>

definition dispatch_request ::
  "env \<Rightarrow> request \<Rightarrow> endpoint \<Rightarrow> nat list \<Rightarrow> job list \<Rightarrow> response \<times> job list" where
  "dispatch_request e r ep view_args rows =
     (case ep of
        home_ep \<Rightarrow> (home e rows, rows)
      | jobs_ep \<Rightarrow> (jobs e r rows, rows)
      | add_job_ep \<Rightarrow> add_job e r rows
      | job_details_ep \<Rightarrow>
          (case view_args of [i] \<Rightarrow> (job_details i rows, rows) | _ \<Rightarrow> (abort 500, rows))
      | job_edit_ep \<Rightarrow>
          (case view_args of [i] \<Rightarrow> job_edit e r i rows | _ \<Rightarrow> (abort 500, rows))
      | test_page_ep \<Rightarrow> (test_page, rows)
      | health_live_ep \<Rightarrow> (health_live, rows)
      | health_readiness_ep \<Rightarrow> (health_readiness e, rows))"

subsection \<open>What the database's ordering guarantees\<close>

text \<open>
  \<^verbatim>\<open>order_by(Job.application_date.desc())\<close> names one sort key and no other. What the
  database owes for it is the selected rows, each once, with no earlier date before a later
  one; the order among rows of equal date is the database's to choose.
\<close>

definition sorted_desc :: "job list \<Rightarrow> bool" where
  "sorted_desc xs = sorted_wrt (\<lambda>a b. application_date b \<le> application_date a) xs"

definition order_by_ok :: "env \<Rightarrow> job list \<Rightarrow> bool" where
  "order_by_ok e rows =
     (mset (order_by_desc e rows) = mset rows \<and> sorted_desc (order_by_desc e rows))"

text \<open>
  The database of the program is SQLite (\<^verbatim>\<open>sqlite:///job_tracker.db\<close>), and the table has no
  index on \<^verbatim>\<open>application_date\<close>. SQLite then scans the table by its key, which is the order
  of insertion, and sorts what it scans: each row goes behind the rows of a later or the
  same date, so rows of equal date stay in the order of the scan.
\<close>

fun sorter_insert :: "job \<Rightarrow> job list \<Rightarrow> job list" where
  "sorter_insert x [] = [x]"
| "sorter_insert x (y # ys) =
     (if application_date y < application_date x then x # y # ys else y # sorter_insert x ys)"

definition sqlite_order_by_desc :: "job list \<Rightarrow> job list" where
  "sqlite_order_by_desc rows = fold sorter_insert rows []"

subsection \<open>The handler table of the specification\<close>

text \<open>
  The method and path pairs of the specification's table of operations: six operations
  for the user and two health checks. \<open>in_routes\<close> says that a request's method and path
  match a line of such a table.
\<close>

definition spec_routes :: "(http_method \<times> segment list) list" where
  "spec_routes =
     [(GET, [Lit []]),
      (GET, [Lit ''jobs'']),
      (GET, [Lit ''add-job'']), (POST, [Lit ''add-job'']),
      (GET, [Lit ''job'', IntConverter]),
      (GET, [Lit ''job'', IntConverter, Lit ''edit'']),
      (POST, [Lit ''job'', IntConverter, Lit ''edit'']),
      (GET, [Lit ''healthz'', Lit ''live'']),
      (GET, [Lit ''healthz'', Lit ''readiness''])]"

definition in_routes :: "(http_method \<times> segment list) list \<Rightarrow> http_method \<Rightarrow> string list \<Rightarrow> bool" where
  "in_routes table m p = list_ex (\<lambda>(m', rule). m' = m \<and> match_path rule p \<noteq> None) table"

text \<open>
  What a table of such lines answers once Flask has registered it: the method of a line,
  \<^verbatim>\<open>HEAD\<close> where the line has \<^verbatim>\<open>GET\<close>, and \<^verbatim>\<open>OPTIONS\<close>, on the line's path.
\<close>

definition answers :: "(http_method \<times> segment list) list \<Rightarrow> http_method \<Rightarrow> string list \<Rightarrow> bool" where
  "answers table m p =
     list_ex (\<lambda>(m', rule). match_path rule p \<noteq> None \<and>
                (m = m' \<or> (m = HEAD \<and> m' = GET) \<or> m = OPTIONS)) table"

subsection \<open>Sample inputs\<close>

text \<open>
  An environment, requests and rows on which the theorems below are run. The database
  of the sample environment orders as SQLite does.
\<close>

definition strptime_2024 :: "string \<Rightarrow> date option" where
  "strptime_2024 s =
     (if s = ''2024-01-15'' then Some (2024, 1, 15)
      else if s = ''2024-02-01'' then Some (2024, 2, 1) else None)"

definition env_2024 :: env where
  "env_2024 = \<lparr> today = (2024, 3, 1), current_timestamp = 1709300000,
                strptime = strptime_2024, order_by_desc = sqlite_order_by_desc,
                select_1 = Inr () \<rparr>"

definition acme_form :: "string \<Rightarrow> string list" where
  "acme_form name =
     (if name = ''application_date'' then [''2024-01-15'']
      else if name = ''status'' then [''Interviewing'']
      else if name = ''company'' then [''Acme'']
      else if name = ''position'' then [''Engineer'']
      else if name = ''resume_used'' then [''Default Resume'']
      else [])"

definition acme_post :: request where
  "acme_post = \<lparr> request_method = POST, form = acme_form, args = (\<lambda>name. []), csrf_token_valid = True \<rparr>"

definition acme_job :: job where
  "acme_job =
     \<lparr> job_id = 1, application_date = (2024, 1, 15), status = ''Interviewing'',
       company = ''Acme'', position = ''Engineer'', resume_used = ''Default Resume'',
       job_url = None, job_description = None, job_notes = None, salary = None,
       created_at = Some 1705300000 \<rparr>"

definition globex_job :: job where
  "globex_job =
     \<lparr> job_id = 2, application_date = (2024, 1, 15), status = ''Waiting for Response'',
       company = ''Globex'', position = ''Analyst'', resume_used = ''Default Resume'',
       job_url = Some ''https://globex.example/jobs/7'', job_description = None,
       job_notes = None, salary = Some ''90k'', created_at = Some 1705400000 \<rparr>"

definition initech_job :: job where
  "initech_job =
     \<lparr> job_id = 3, application_date = (2024, 2, 1), status = ''Interviewing'',
       company = ''Initech'', position = ''Developer'', resume_used = ''Default Resume'',
       job_url = None, job_description = None, job_notes = None, salary = None,
       created_at = Some 1706800000 \<rparr>"

definition reject_form :: "string \<Rightarrow> string list" where
  "reject_form name =
     (if name = ''application_date'' then [''2024-02-01'']
      else if name = ''status'' then [''Rejected Application'']
      else if name = ''company'' then [''Acme'']
      else if name = ''position'' then [''Engineer'']
      else if name = ''resume_used'' then [''Default Resume'']
      else if name = ''notes'' then [''No reply after the interview'']
      else [])"

definition reject_post :: request where
  "reject_post =
     \<lparr> request_method = POST, form = reject_form, args = (\<lambda>name. []), csrf_token_valid = True \<rparr>"

definition status_query :: "string \<Rightarrow> request" where
  "status_query v =
     \<lparr> request_method = GET, form = (\<lambda>name. []),
       args = (\<lambda>name. if name = ''status'' then [v] else []), csrf_token_valid = False \<rparr>"

definition env_down :: env where
  "env_down = env_2024\<lparr> select_1 := Inl OperationalError \<rparr>"

definition no_date_form :: "string \<Rightarrow> string list" where
  "no_date_form name =
     (if name = ''status'' then [''Interviewing'']
      else if name = ''company'' then [''Acme'']
      else if name = ''position'' then [''Engineer'']
      else if name = ''resume_used'' then [''Default Resume'']
      else [])"

definition no_date_post :: request where
  "no_date_post =
     \<lparr> request_method = POST, form = no_date_form, args = (\<lambda>name. []), csrf_token_valid = True \<rparr>"

section \<open>Properties\<close>

subsection \<open>Keys, lookup and validation\<close>

lemma fold_max_ge: "a \<le> fold max xs (a::nat)"
  by (induction xs arbitrary: a) (auto intro: order_trans[OF max.cobounded2])

lemma fold_max_mem: "x \<in> set xs \<Longrightarrow> x \<le> fold max xs (a::nat)"
proof (induction xs arbitrary: a)
  case Nil
  then show ?case by simp
next
  case (Cons y ys)
  show ?case
  proof (cases "x = y")
    case True
    have "y \<le> max y a" by simp
    also have "\<dots> \<le> fold max ys (max y a)" by (rule fold_max_ge)
    finally show ?thesis using True by simp
  next
    case False
    with Cons.prems have "x \<in> set ys" by simp
    then show ?thesis using Cons.IH by simp
  qed
qed

lemma next_id_fresh: "j \<in> set rows \<Longrightarrow> job_id j < next_id rows"
  unfolding next_id_def using fold_max_mem [of "job_id j" "map job_id rows" 0]
  by (simp add: less_Suc_eq_le)

lemma query_get_None: "(query_get i rows = None) = (i \<notin> job_id ` set rows)"
  unfolding query_get_def by (auto simp: find_None_iff)

lemma get_or_404_found: "query_get i rows = Some j \<Longrightarrow> get_or_404 i rows = Inr (Some j)"
  by (simp add: get_or_404_def)

lemma get_or_404_absent:
  "i \<notin> job_id ` set rows \<Longrightarrow>
   get_or_404 i rows = (if 2 ^ 63 \<le> i then Inl OverflowError else Inr None)"
  using query_get_None [of i rows] by (simp add: get_or_404_def)

text \<open>
  On a table whose keys are all below \<open>2 ^ 63\<close>, as those of a SQLite table are, the lookup
  is the program's: the driver's check of the key, then the query.
\<close>

lemma get_or_404_sqlite_keys:
  assumes "\<forall>j\<in>set rows. job_id j < 2 ^ 63"
  shows "get_or_404 i rows = (if 2 ^ 63 \<le> i then Inl OverflowError else Inr (query_get i rows))"
proof (cases "query_get i rows")
  case None
  then show ?thesis by (simp add: get_or_404_def)
next
  case (Some j)
  then have "j \<in> set rows" "job_id j = i"
    by (auto simp: query_get_def find_Some_iff)
  with assms have "i < 2 ^ 63" by auto
  with Some show ?thesis by (simp add: get_or_404_def)
qed

lemma find_append_if:
  "find P (xs @ ys) = (case find P xs of None \<Rightarrow> find P ys | Some x \<Rightarrow> Some x)"
  by (induction xs) auto

lemma query_get_fresh:
  assumes "job_id j = next_id rows"
  shows "query_get (next_id rows) (rows @ [j]) = Some j"
proof -
  have "find (\<lambda>j. job_id j = next_id rows) rows = None"
    using next_id_fresh by (fastforce simp: find_None_iff)
  then show ?thesis using assms by (simp add: query_get_def find_append_if)
qed

lemma filter_by_status_Nil: "(filter_by_status s rows = []) = (\<forall>j\<in>set rows. status j \<noteq> s)"
  by (auto simp: filter_by_status_def filter_empty_conv)

lemma validate_on_submit_iff:
  "fst (validate_on_submit r (JobForm_init e r)) =
     (is_submitted r \<and> csrf_token_valid r
      \<and> DateField_process e (form r ''application_date'') \<noteq> None
      \<and> valid_choice STATUS_CHOICES (first_value (form r ''status''))
      \<and> DataRequired_str (first_value (form r ''company''))
      \<and> DataRequired_str (first_value (form r ''position''))
      \<and> valid_choice RESUME_CHOICES (first_value (form r ''resume_used'')))"
  by (auto simp: validate_on_submit_def field_errors_def JobForm_init_def
      DataRequired_date_def valid_choice_def RESUME_CHOICES_def DataRequired_str_def strip_def isspace_def
      split: option.splits)

lemma validated_not_null:
  assumes "fst (validate_on_submit r (JobForm_init e r))"
  shows "\<exists>d s c p u. not_null (snd (validate_on_submit r (JobForm_init e r))) = Some (d, s, c, p, u)
     \<and> DateField_process e (form r ''application_date'') = Some d
     \<and> first_value (form r ''status'') = Some s
     \<and> first_value (form r ''company'') = Some c
     \<and> first_value (form r ''position'') = Some p
     \<and> first_value (form r ''resume_used'') = Some u
     \<and> s \<in> set (map fst STATUS_CHOICES) \<and> u \<in> set (map fst RESUME_CHOICES)
     \<and> strip c \<noteq> [] \<and> strip p \<noteq> []"
proof -
  from assms have v: "is_submitted r" "csrf_token_valid r"
      "DateField_process e (form r ''application_date'') \<noteq> None"
      "valid_choice STATUS_CHOICES (first_value (form r ''status''))"
      "DataRequired_str (first_value (form r ''company''))"
      "DataRequired_str (first_value (form r ''position''))"
      "valid_choice RESUME_CHOICES (first_value (form r ''resume_used''))"
    by (simp_all add: validate_on_submit_iff)
  then show ?thesis
    by (auto simp: not_null_def validate_on_submit_def validate_def JobForm_init_def
        valid_choice_def DataRequired_str_def split: option.splits)
qed

lemma validated_optional:
  assumes "fst (validate_on_submit r (JobForm_init e r))"
  shows "job_url_data (snd (validate_on_submit r (JobForm_init e r))) = first_value (form r ''job_url'')"
    "job_description_data (snd (validate_on_submit r (JobForm_init e r))) = first_value (form r ''job_description'')"
    "notes_data (snd (validate_on_submit r (JobForm_init e r))) = first_value (form r ''notes'')"
    "salary_data (snd (validate_on_submit r (JobForm_init e r))) = first_value (form r ''salary'')"
  using assms
  by (simp_all add: validate_on_submit_def validate_def JobForm_init_def split: if_splits)


subsection \<open>Adding a job\<close>

text \<open>
  C1. Take a submission to Add: a POST whose CSRF token checks, which sends a date that
  parses, a company and a position that are not blank, and a status and a resume among
  their choices. Add redirects to the list and appends one row: its key is one no row had,
  its fields are exactly the values sent (the parsed date, the first value of each other
  field, \<^verbatim>\<open>None\<close> for an optional field not sent) and its \<^verbatim>\<open>created_at\<close> is the database's
  timestamp. Details of that key then renders this row.
\<close>

theorem add_job_then_job_details:
  assumes post: "request_method r = POST" and csrf: "csrf_token_valid r"
    and date: "form r ''application_date'' \<noteq> []"
      "strptime e (join_space (form r ''application_date'')) = Some d"
    and status: "first_value (form r ''status'') = Some s" "s \<in> set (map fst STATUS_CHOICES)"
    and company: "first_value (form r ''company'') = Some c" "strip c \<noteq> []"
    and position: "first_value (form r ''position'') = Some p" "strip p \<noteq> []"
    and resume: "first_value (form r ''resume_used'') = Some u" "u \<in> set (map fst RESUME_CHOICES)"
    and new: "j = \<lparr> job_id = next_id rows, application_date = d, status = s, company = c,
               position = p, resume_used = u, job_url = first_value (form r ''job_url''),
               job_description = first_value (form r ''job_description''),
               job_notes = first_value (form r ''notes''),
               salary = first_value (form r ''salary''),
               created_at = Some (current_timestamp e) \<rparr>"
  shows "add_job e r rows = (redirect jobs_ep [], rows @ [j])
    \<and> next_id rows \<notin> job_id ` set rows
    \<and> job_details (next_id rows) (rows @ [j]) = render_template (job_details_html j (next_id rows))"
proof -
  have blank: "strip [] = []" by (simp add: strip_def)
  have valid: "fst (validate_on_submit r (JobForm_init e r))"
    using post csrf date status company position resume blank
    by (auto simp: validate_on_submit_iff is_submitted_def DateField_process_def valid_choice_def
        DataRequired_str_def)
  let ?f = "snd (validate_on_submit r (JobForm_init e r))"
  from validated_not_null [OF valid] date status company position resume
  have nn: "not_null ?f = Some (d, s, c, p, u)"
    by (auto simp: DateField_process_def)
  have add: "add_job e r rows = (redirect jobs_ep [], rows @ [j])"
    using valid nn validated_optional [OF valid]
    by (simp add: add_job_def session_add_def new case_prod_beta)
  have id: "job_id j = next_id rows" by (simp add: new)
  have get: "job_details (next_id rows) (rows @ [j]) = render_template (job_details_html j (next_id rows))"
    by (simp add: job_details_def get_or_404_found [OF query_get_fresh [OF id]])
  have fresh: "next_id rows \<notin> job_id ` set rows"
    using next_id_fresh by fastforce
  show ?thesis using add fresh get by simp
qed

theorem add_job_then_job_details_witness:
  "request_method acme_post = POST \<and> csrf_token_valid acme_post
   \<and> form acme_post ''application_date'' = [''2024-01-15'']
   \<and> strptime env_2024 ''2024-01-15'' = Some (2024, 1, 15)
   \<and> first_value (form acme_post ''status'') = Some ''Interviewing''
   \<and> ''Interviewing'' \<in> set (map fst STATUS_CHOICES)
   \<and> first_value (form acme_post ''company'') = Some ''Acme'' \<and> strip ''Acme'' = ''Acme''
   \<and> first_value (form acme_post ''position'') = Some ''Engineer'' \<and> strip ''Engineer'' = ''Engineer''
   \<and> first_value (form acme_post ''resume_used'') = Some ''Default Resume''
   \<and> ''Default Resume'' \<in> set (map fst RESUME_CHOICES)
   \<and> add_job env_2024 acme_post [] = (redirect jobs_ep [], [acme_job\<lparr>created_at := Some 1709300000\<rparr>])
   \<and> job_details 1 [acme_job\<lparr>created_at := Some 1709300000\<rparr>]
       = render_template (job_details_html (acme_job\<lparr>created_at := Some 1709300000\<rparr>) 1)"
proof -
  have h: "request_method acme_post = POST" "csrf_token_valid acme_post"
    "form acme_post ''application_date'' \<noteq> []"
    "strptime env_2024 (join_space (form acme_post ''application_date'')) = Some (2024, 1, 15)"
    "first_value (form acme_post ''status'') = Some ''Interviewing''"
    "''Interviewing'' \<in> set (map fst STATUS_CHOICES)"
    "first_value (form acme_post ''company'') = Some ''Acme''" "strip ''Acme'' \<noteq> []"
    "first_value (form acme_post ''position'') = Some ''Engineer''" "strip ''Engineer'' \<noteq> []"
    "first_value (form acme_post ''resume_used'') = Some ''Default Resume''"
    "''Default Resume'' \<in> set (map fst RESUME_CHOICES)"
    by (simp_all add: acme_post_def acme_form_def env_2024_def strptime_2024_def first_value_def
        STATUS_CHOICES_def RESUME_CHOICES_def strip_def isspace_def)
  have j: "acme_job\<lparr>created_at := Some 1709300000\<rparr> =
     \<lparr> job_id = next_id [], application_date = (2024, 1, 15), status = ''Interviewing'',
       company = ''Acme'', position = ''Engineer'', resume_used = ''Default Resume'',
       job_url = first_value (form acme_post ''job_url''),
       job_description = first_value (form acme_post ''job_description''),
       job_notes = first_value (form acme_post ''notes''),
       salary = first_value (form acme_post ''salary''),
       created_at = Some (current_timestamp env_2024) \<rparr>"
    by (simp add: acme_job_def next_id_def acme_post_def acme_form_def first_value_def env_2024_def)
  show ?thesis
    using h add_job_then_job_details [OF h j]
    by (simp add: next_id_def acme_post_def acme_form_def env_2024_def strptime_2024_def
        strip_def isspace_def)
qed

subsection \<open>Submissions that fail validation\<close>

text \<open>
  A submission that fails validation leaves the table as it was and renders the form
  again, for Add and for Edit.
\<close>

lemma add_job_invalid:
  assumes "\<not> fst (validate_on_submit r (JobForm_init e r))"
  shows "add_job e r rows =
    (render_template (add_job_html (snd (validate_on_submit r (JobForm_init e r)))), rows)"
  using assms by (simp add: add_job_def case_prod_beta)

lemma job_edit_invalid:
  assumes "query_get i rows = Some j" and "\<not> fst (validate_on_submit r (JobForm_init e r))"
  shows "\<exists>f. job_edit e r i rows = (render_template (edit_job_html f j i), rows)"
  using assms by (simp add: job_edit_def get_or_404_found case_prod_beta)

lemma no_date_valid: "fst (validate_on_submit no_date_post (JobForm_init env_2024 no_date_post))"
  by (simp add: validate_on_submit_iff is_submitted_def no_date_post_def no_date_form_def env_2024_def
      DateField_process_def first_value_def valid_choice_def STATUS_CHOICES_def RESUME_CHOICES_def
      DataRequired_str_def strip_def isspace_def)


text \<open>
  C2. A submission that does not send \<^verbatim>\<open>application_date\<close> at all is not rejected: the
  date field keeps its default, today, and passes \<^verbatim>\<open>DataRequired\<close>. Add inserts a row and
  Edit overwrites the row's date, both redirecting, although a required field is missing.
\<close>

theorem submission_without_date_is_accepted:
  "form no_date_post ''application_date'' = []
   \<and> add_job env_2024 no_date_post [] =
       (redirect jobs_ep [],
        [acme_job\<lparr>application_date := (2024, 3, 1), created_at := Some 1709300000\<rparr>])
   \<and> job_edit env_2024 no_date_post 1 [acme_job] =
       (redirect job_details_ep [1], [acme_job\<lparr>application_date := (2024, 3, 1)\<rparr>])"
  by (simp add: add_job_def job_edit_def validate_on_submit_def validate_def field_errors_def
      is_submitted_def JobForm_init_def session_add_def assign_fields_def not_null_def
      session_update_def query_get_def get_or_404_def next_id_def
      no_date_post_def no_date_form_def env_2024_def acme_job_def
      DateField_process_def first_value_def valid_choice_def STATUS_CHOICES_def RESUME_CHOICES_def
      DataRequired_str_def DataRequired_date_def strip_def isspace_def)

subsection \<open>Editing a job\<close>

lemma reject_valid: "fst (validate_on_submit reject_post (JobForm_init env_2024 reject_post))"
  by (simp add: validate_on_submit_iff is_submitted_def reject_post_def reject_form_def env_2024_def
      strptime_2024_def
      DateField_process_def first_value_def valid_choice_def STATUS_CHOICES_def RESUME_CHOICES_def
      DataRequired_str_def strip_def isspace_def)

lemma query_get_Some_id: "query_get i rows = Some j \<Longrightarrow> job_id j = i \<and> j \<in> set rows"
  by (auto simp: query_get_def find_Some_iff)

lemma query_get_session_update:
  "query_get i rows = Some j \<Longrightarrow> job_id j' = i \<Longrightarrow> query_get i (session_update i j' rows) = Some j'"
  unfolding query_get_def session_update_def
  by (induction rows) (auto split: if_splits)

lemma session_update_other:
  "k < length rows \<Longrightarrow> job_id (rows ! k) \<noteq> i \<Longrightarrow> session_update i j' rows ! k = rows ! k"
  by (simp add: session_update_def)


text \<open>
  C3. A valid Edit submission for an existing row redirects to its details and rewrites
  the row: its nine form fields become the values sent, its key and \<^verbatim>\<open>created_at\<close> stay,
  the table keeps its length and every row of another key stays as it was.
\<close>

theorem job_edit_changes_submitted_fields:
  assumes found: "query_get i rows = Some j"
    and valid: "fst (validate_on_submit r (JobForm_init e r))"
  shows "\<exists>j'. job_edit e r i rows = (redirect job_details_ep [i], session_update i j' rows)
    \<and> query_get i (session_update i j' rows) = Some j'
    \<and> job_id j' = job_id j \<and> created_at j' = created_at j
    \<and> DateField_process e (form r ''application_date'') = Some (application_date j')
    \<and> first_value (form r ''status'') = Some (status j')
    \<and> first_value (form r ''company'') = Some (company j')
    \<and> first_value (form r ''position'') = Some (position j')
    \<and> first_value (form r ''resume_used'') = Some (resume_used j')
    \<and> job_url j' = first_value (form r ''job_url'')
    \<and> job_description j' = first_value (form r ''job_description'')
    \<and> job_notes j' = first_value (form r ''notes'')
    \<and> salary j' = first_value (form r ''salary'')
    \<and> length (session_update i j' rows) = length rows
    \<and> (\<forall>k<length rows. job_id (rows ! k) \<noteq> i \<longrightarrow> session_update i j' rows ! k = rows ! k)"
proof -
  let ?f = "snd (validate_on_submit r (JobForm_init e r))"
  from validated_not_null [OF valid] obtain d s c p u where
    nn: "not_null ?f = Some (d, s, c, p, u)"
    and d: "DateField_process e (form r ''application_date'') = Some d"
    and s: "first_value (form r ''status'') = Some s"
    and c: "first_value (form r ''company'') = Some c"
    and p: "first_value (form r ''position'') = Some p"
    and u: "first_value (form r ''resume_used'') = Some u"
    by blast
  define j' where "j' = j\<lparr> application_date := d, status := s, company := c, position := p,
                 resume_used := u, job_url := job_url_data ?f,
                 job_description := job_description_data ?f, job_notes := notes_data ?f,
                 salary := salary_data ?f \<rparr>"
  have edit: "job_edit e r i rows = (redirect job_details_ep [i], session_update i j' rows)"
    using found valid nn
    by (simp add: job_edit_def get_or_404_found assign_fields_def j'_def case_prod_beta)
  have id: "job_id j' = i"
    using query_get_Some_id [OF found] by (simp add: j'_def)
  have get: "query_get i (session_update i j' rows) = Some j'"
    by (rule query_get_session_update [OF found id])
  have len: "length (session_update i j' rows) = length rows"
    by (simp add: session_update_def)
  have frame: "\<forall>k<length rows. job_id (rows ! k) \<noteq> i \<longrightarrow> session_update i j' rows ! k = rows ! k"
    by (simp add: session_update_other)
  show ?thesis
    using edit get len frame d s c p u validated_optional [OF valid]
    by (intro exI [of _ j']) (simp add: j'_def)
qed

theorem job_edit_changes_submitted_fields_witness:
  "query_get 1 [acme_job, globex_job] = Some acme_job
   \<and> fst (validate_on_submit reject_post (JobForm_init env_2024 reject_post))
   \<and> (\<exists>j'. job_edit env_2024 reject_post 1 [acme_job, globex_job]
             = (redirect job_details_ep [1], [j', globex_job])
          \<and> job_id j' = 1 \<and> created_at j' = Some 1705300000
          \<and> status j' = ''Rejected Application'' \<and> application_date j' = (2024, 2, 1)
          \<and> job_notes j' = Some ''No reply after the interview'')"
proof -
  have found: "query_get 1 [acme_job, globex_job] = Some acme_job"
    by (simp add: query_get_def acme_job_def)
  show ?thesis
    using found reject_valid
      job_edit_changes_submitted_fields [OF found reject_valid]
    by (auto simp: session_update_def acme_job_def globex_job_def reject_post_def reject_form_def
        env_2024_def strptime_2024_def first_value_def DateField_process_def)
qed


subsection \<open>Keys that are not in the table\<close>

text \<open>
  For a key no row has and SQLite can hold, Details answers 404, and so does Edit for
  every request, shown or submitted, whatever its form; the table is unchanged.
\<close>

lemma absent_key_not_found:
  assumes "i \<notin> job_id ` set rows" and "i < 2 ^ 63"
  shows "job_details i rows = abort 404
    \<and> job_edit e r i rows = (abort 404, rows)
    \<and> dispatch_request e r job_details_ep [i] rows = (abort 404, rows)
    \<and> dispatch_request e r job_edit_ep [i] rows = (abort 404, rows)"
  using assms
  by (simp add: job_details_def job_edit_def dispatch_request_def get_or_404_absent)

text \<open>For a key beyond SQLite's range the driver's exception escapes both view functions.\<close>

lemma absent_key_overflow:
  assumes "i \<notin> job_id ` set rows" and "2 ^ 63 \<le> i"
  shows "job_details i rows = raised OverflowError
    \<and> job_edit e r i rows = (raised OverflowError, rows)"
  using assms by (simp add: job_details_def job_edit_def get_or_404_absent)

text \<open>
  C7. The claim that Details and Edit answer 404 for every key that is not in the table
  fails for the key \<open>2 ^ 63\<close>: the converter of the two routes accepts its digits, no row has
  it, and \<^verbatim>\<open>get_or_404\<close> does not answer 404 but lets \<^verbatim>\<open>OverflowError\<close> escape, a server error,
  from Details and from Edit shown or submitted. The table is unchanged.
\<close>

theorem key_beyond_sqlite_range_raises:
  "int_converter ''9223372036854775808'' = Some 9223372036854775808
   \<and> 9223372036854775808 \<notin> job_id ` set [acme_job, globex_job]
   \<and> job_details 9223372036854775808 [acme_job, globex_job] = raised OverflowError
   \<and> dispatch_request env_2024 (status_query []) job_details_ep [9223372036854775808]
        [acme_job, globex_job] = (raised OverflowError, [acme_job, globex_job])
   \<and> job_edit env_2024 (status_query []) 9223372036854775808 [acme_job, globex_job]
        = (raised OverflowError, [acme_job, globex_job])
   \<and> job_edit env_2024 reject_post 9223372036854775808 [acme_job, globex_job]
        = (raised OverflowError, [acme_job, globex_job])"
  by (simp add: int_converter_def isdigit_def job_details_def job_edit_def dispatch_request_def
      get_or_404_def query_get_def acme_job_def globex_job_def)

subsection \<open>Health checks\<close>

text \<open>
  C8. The liveness endpoint answers 200 \<^verbatim>\<open>OK\<close> for every request, environment and table.
  The readiness endpoint answers 200 \<^verbatim>\<open>OK\<close> when connecting and running \<^verbatim>\<open>SELECT 1\<close>
  succeeds and 500 \<^verbatim>\<open>Not Ready\<close> when it raises; the exception never escapes.
\<close>

theorem health_checks:
  "dispatch_request e r health_live_ep [] rows = (body ''OK'' 200, rows)
   \<and> (select_1 e = Inr () \<longrightarrow> health_readiness e = body ''OK'' 200)
   \<and> (\<forall>x. select_1 e = Inl x \<longrightarrow> health_readiness e = body ''Not Ready'' 500)
   \<and> (\<forall>x. health_readiness e \<noteq> raised x)"
  by (auto simp: dispatch_request_def health_live_def health_readiness_def split: sum.splits)

theorem health_checks_witness:
  "select_1 env_2024 = Inr () \<and> health_readiness env_2024 = body ''OK'' 200
   \<and> select_1 env_down = Inl OperationalError \<and> health_readiness env_down = body ''Not Ready'' 500
   \<and> dispatch_request env_down acme_post health_live_ep [] [acme_job] = (body ''OK'' 200, [acme_job])"
proof -
  have up: "select_1 env_2024 = Inr ()" by (simp add: env_2024_def)
  have down: "select_1 env_down = Inl OperationalError" by (simp add: env_down_def)
  show ?thesis
    using up down health_checks [of env_2024 acme_post "[acme_job]"]
      health_checks [of env_down acme_post "[acme_job]"]
    by simp
qed


subsection \<open>Listing jobs\<close>

text \<open>
  The claim C4 as stated fails where the \<^verbatim>\<open>status\<close> argument is present and empty: no row
  has the empty status, yet the response lists every row.
\<close>

theorem jobs_empty_status_counterexample:
  "args_get (status_query []) ''status'' = Some []
   \<and> filter_by_status [] [acme_job, globex_job] = []
   \<and> jobs env_2024 (status_query []) [acme_job, globex_job]
       = render_template (jobs_html [acme_job, globex_job])"
  by (simp add: jobs_def args_get_def status_query_def first_value_def filter_by_status_def
      env_2024_def sqlite_order_by_desc_def acme_job_def globex_job_def)

text \<open>
  C4. List always renders the list template, never an error. When the \<^verbatim>\<open>status\<close>
  argument is present and not empty, the rows listed are exactly those whose status equals
  it, by plain equality of strings and with no check against the choices, and none when
  no row matches; when the argument is absent or empty, they are all the rows. In both
  cases they come in descending order of application date, as the database orders them.
\<close>

theorem jobs_filters_by_status:
  "\<exists>all_jobs. jobs e r rows = render_template (jobs_html all_jobs)
     \<and> (\<forall>v. args_get r ''status'' = Some v \<and> v \<noteq> [] \<and> order_by_ok e (filter_by_status v rows) \<longrightarrow>
           mset all_jobs = mset (filter (\<lambda>j. status j = v) rows) \<and> sorted_desc all_jobs
           \<and> ((\<forall>j\<in>set rows. status j \<noteq> v) \<longrightarrow> all_jobs = []))
     \<and> ((args_get r ''status'' = None \<or> args_get r ''status'' = Some []) \<and> order_by_ok e rows \<longrightarrow>
           mset all_jobs = mset rows \<and> sorted_desc all_jobs)"
proof (cases "args_get r ''status''")
  case None
  then show ?thesis by (simp add: jobs_def order_by_ok_def)
next
  case (Some v)
  show ?thesis
  proof (cases "v = []")
    case True
    with Some show ?thesis by (simp add: jobs_def order_by_ok_def)
  next
    case False
    let ?sel = "filter_by_status v rows"
    have shown: "jobs e r rows = render_template (jobs_html (order_by_desc e ?sel))"
      using Some False by (simp add: jobs_def)
    have sel: "order_by_ok e ?sel \<Longrightarrow>
      mset (order_by_desc e ?sel) = mset (filter (\<lambda>j. status j = v) rows)
      \<and> sorted_desc (order_by_desc e ?sel)"
      by (simp add: order_by_ok_def filter_by_status_def)
    have none: "order_by_desc e ?sel = []"
      if ok: "order_by_ok e ?sel" and no: "\<forall>j\<in>set rows. status j \<noteq> v"
    proof -
      from no have "?sel = []" by (simp add: filter_by_status_Nil)
      with ok have "mset (order_by_desc e ?sel) = {#}" by (simp add: order_by_ok_def)
      then show ?thesis by simp
    qed
    show ?thesis
      using Some False shown sel none
      by (intro exI [of _ "order_by_desc e ?sel"]) simp
  qed
qed

lemma interviewing_query:
  "args_get (status_query ''Interviewing'') ''status'' = Some ''Interviewing''
   \<and> ''Interviewing'' \<noteq> []
   \<and> order_by_ok env_2024 (filter_by_status ''Interviewing'' [acme_job, globex_job])"
  by (simp add: args_get_def status_query_def first_value_def order_by_ok_def sorted_desc_def
      filter_by_status_def env_2024_def sqlite_order_by_desc_def acme_job_def globex_job_def)

theorem jobs_filters_by_status_witness:
  "args_get (status_query ''Interviewing'') ''status'' = Some ''Interviewing''
   \<and> ''Interviewing'' \<noteq> []
   \<and> order_by_ok env_2024 (filter_by_status ''Interviewing'' [acme_job, globex_job])
   \<and> jobs env_2024 (status_query ''Interviewing'') [acme_job, globex_job]
       = render_template (jobs_html [acme_job])"
proof -
  from jobs_filters_by_status [of env_2024 "status_query ''Interviewing''" "[acme_job, globex_job]"]
  obtain all_jobs where
    shown: "jobs env_2024 (status_query ''Interviewing'') [acme_job, globex_job]
             = render_template (jobs_html all_jobs)"
    and sel: "args_get (status_query ''Interviewing'') ''status'' = Some ''Interviewing''
        \<and> ''Interviewing'' \<noteq> []
        \<and> order_by_ok env_2024 (filter_by_status ''Interviewing'' [acme_job, globex_job]) \<longrightarrow>
        mset all_jobs = mset (filter (\<lambda>j. status j = ''Interviewing'') [acme_job, globex_job])"
    by blast
  from sel interviewing_query have "mset all_jobs = {#acme_job#}"
    by (simp add: acme_job_def globex_job_def)
  then have "all_jobs = [acme_job]" by simp
  with shown interviewing_query show ?thesis by simp
qed

text \<open>
  C10. A List request whose \<^verbatim>\<open>status\<close> argument is present and empty is answered as one
  without the argument: every row, in the database's order.
\<close>

theorem jobs_empty_status_lists_all:
  assumes "args_get r ''status'' = Some []"
  shows "jobs e r rows = render_template (jobs_html (order_by_desc e rows))
    \<and> jobs e r rows = jobs e (r\<lparr>args := (\<lambda>name. [])\<rparr>) rows"
  using assms by (simp add: jobs_def args_get_def first_value_def)

theorem jobs_empty_status_lists_all_witness:
  "args_get (status_query []) ''status'' = Some []
   \<and> jobs env_2024 (status_query []) [acme_job, globex_job]
       = render_template (jobs_html [acme_job, globex_job])"
proof -
  have empty: "args_get (status_query []) ''status'' = Some []"
    by (simp add: args_get_def status_query_def first_value_def)
  show ?thesis
    using empty jobs_empty_status_lists_all [OF empty, of env_2024 "[acme_job, globex_job]"]
    by (simp add: env_2024_def sqlite_order_by_desc_def acme_job_def globex_job_def)
qed

subsection \<open>The dashboard\<close>

lemma mset_sorter_insert: "mset (sorter_insert x xs) = add_mset x (mset xs)"
  by (induction xs) auto

lemma set_sorter_insert: "set (sorter_insert x xs) = insert x (set xs)"
  by (induction xs) auto

lemma sorted_sorter_insert: "sorted_desc xs \<Longrightarrow> sorted_desc (sorter_insert x xs)"
  unfolding sorted_desc_def
  by (induction xs) (auto simp: set_sorter_insert)

lemma filter_sorter_insert:
  "sorted_desc xs \<Longrightarrow>
   filter (\<lambda>j. application_date j = d) (sorter_insert x xs) =
   filter (\<lambda>j. application_date j = d) xs @ (if application_date x = d then [x] else [])"
  unfolding sorted_desc_def
proof (induction xs)
  case Nil
  then show ?case by simp
next
  case (Cons y ys)
  show ?case
  proof (cases "application_date y < application_date x")
    case True
    have "\<forall>z\<in>set (y # ys). application_date z < application_date x"
      using Cons.prems True by auto
    then have "application_date x = d \<Longrightarrow> filter (\<lambda>j. application_date j = d) (y # ys) = []"
      by (auto simp: filter_empty_conv)
    with True show ?thesis by auto
  next
    case False
    with Cons show ?thesis by simp
  qed
qed

lemma fold_sorter_insert:
  "sorted_desc acc \<Longrightarrow>
   mset (fold sorter_insert rows acc) = mset rows + mset acc
   \<and> sorted_desc (fold sorter_insert rows acc)
   \<and> filter (\<lambda>j. application_date j = d) (fold sorter_insert rows acc) =
       filter (\<lambda>j. application_date j = d) acc @ filter (\<lambda>j. application_date j = d) rows"
proof (induction rows arbitrary: acc)
  case Nil
  then show ?case by simp
next
  case (Cons x xs)
  from Cons.prems have s: "sorted_desc (sorter_insert x acc)"
    by (rule sorted_sorter_insert)
  from Cons.IH [OF s] show ?case
    by (simp add: mset_sorter_insert filter_sorter_insert [OF Cons.prems])
qed

lemma sqlite_order_by_desc_props:
  "mset (sqlite_order_by_desc rows) = mset rows"
  "sorted_desc (sqlite_order_by_desc rows)"
  "filter (\<lambda>j. application_date j = d) (sqlite_order_by_desc rows) =
     filter (\<lambda>j. application_date j = d) rows"
  using fold_sorter_insert [of "[]" rows d]
  by (simp_all add: sqlite_order_by_desc_def sorted_desc_def)

lemma recent_jobs_of_ordering:
  assumes ok: "order_by_ok e rows"
  shows "length (recent_jobs e rows) = min 5 (length rows)
    \<and> sorted_desc (recent_jobs e rows)
    \<and> mset (recent_jobs e rows) \<subseteq># mset rows
    \<and> (\<forall>a\<in>set (recent_jobs e rows). \<forall>b\<in>#(mset rows - mset (recent_jobs e rows)).
          application_date b \<le> application_date a)"
proof -
  let ?all = "order_by_desc e rows"
  from ok have perm: "mset ?all = mset rows" and sorted: "sorted_desc ?all"
    by (simp_all add: order_by_ok_def)
  have split: "?all = recent_jobs e rows @ drop 5 ?all"
    by (simp add: recent_jobs_def)
  have len: "length ?all = length rows"
    using perm by (rule mset_eq_length)
  have msplit: "mset rows = mset (recent_jobs e rows) + mset (drop 5 ?all)"
    using perm split by (metis mset_append)
  have rest: "mset rows - mset (recent_jobs e rows) = mset (drop 5 ?all)"
    by (simp add: msplit)
  have s2: "sorted_wrt (\<lambda>a b. application_date b \<le> application_date a) (recent_jobs e rows @ drop 5 ?all)"
    using sorted split by (simp add: sorted_desc_def)
  have "length (recent_jobs e rows) = min 5 (length rows)"
    using len by (simp add: recent_jobs_def min.commute)
  moreover have "sorted_desc (recent_jobs e rows)"
    using s2 by (simp add: sorted_desc_def sorted_wrt_append)
  moreover have "mset (recent_jobs e rows) \<subseteq># mset rows"
    by (simp add: msplit)
  moreover have "\<forall>a\<in>set (recent_jobs e rows). \<forall>b\<in>#(mset rows - mset (recent_jobs e rows)).
          application_date b \<le> application_date a"
    using s2 by (simp add: rest sorted_wrt_append)
  ultimately show ?thesis by blast
qed

text \<open>
  C5. With the database ordering as SQLite does, the dashboard gets the number of rows
  and, as recent jobs, the five most recently dated rows (all of them when there are
  fewer): they are rows of the table, in descending order of date, and no row left out has
  a later date than a row listed. Rows of equal date are listed in the order of their
  insertion: for every date, the rows of that date listed are the first rows of that date
  in the table, in the table's order.
\<close>

theorem home_recent_jobs_by_insertion:
  assumes db: "order_by_desc e rows = sqlite_order_by_desc rows"
  shows "home e rows =
      render_template (dashboard_html (length rows) (recent_jobs e rows) (statuses rows))
    \<and> length (recent_jobs e rows) = min 5 (length rows)
    \<and> sorted_desc (recent_jobs e rows)
    \<and> mset (recent_jobs e rows) \<subseteq># mset rows
    \<and> (\<forall>a\<in>set (recent_jobs e rows). \<forall>b\<in>#(mset rows - mset (recent_jobs e rows)).
          application_date b \<le> application_date a)
    \<and> (\<forall>d. \<exists>later. filter (\<lambda>j. application_date j = d) rows =
          filter (\<lambda>j. application_date j = d) (recent_jobs e rows) @ later)"
proof -
  have ok: "order_by_ok e rows"
    by (simp add: order_by_ok_def db sqlite_order_by_desc_props)
  have shown: "home e rows =
      render_template (dashboard_html (length rows) (recent_jobs e rows) (statuses rows))"
    by (simp add: home_def total_jobs_def)
  have ties: "\<exists>later. filter (\<lambda>j. application_date j = d) rows =
      filter (\<lambda>j. application_date j = d) (recent_jobs e rows) @ later" for d
  proof -
    have "filter (\<lambda>j. application_date j = d) rows =
        filter (\<lambda>j. application_date j = d) (take 5 (sqlite_order_by_desc rows) @ drop 5 (sqlite_order_by_desc rows))"
      by (simp add: sqlite_order_by_desc_props)
    also have "\<dots> = filter (\<lambda>j. application_date j = d) (recent_jobs e rows) @
        filter (\<lambda>j. application_date j = d) (drop 5 (sqlite_order_by_desc rows))"
      by (simp only: filter_append recent_jobs_def db)
    finally show ?thesis by blast
  qed
  from recent_jobs_of_ordering [OF ok] shown ties show ?thesis by blast
qed

theorem home_recent_jobs_by_insertion_witness:
  "order_by_desc env_2024 [acme_job, globex_job, initech_job]
     = sqlite_order_by_desc [acme_job, globex_job, initech_job]
   \<and> home env_2024 [acme_job, globex_job, initech_job]
       = render_template (dashboard_html 3 [initech_job, acme_job, globex_job]
           (statuses [acme_job, globex_job, initech_job]))
   \<and> recent_jobs env_2024 [acme_job, globex_job, initech_job] = [initech_job, acme_job, globex_job]
   \<and> application_date acme_job = application_date globex_job"
proof -
  have db: "order_by_desc env_2024 [acme_job, globex_job, initech_job]
     = sqlite_order_by_desc [acme_job, globex_job, initech_job]"
    by (simp add: env_2024_def)
  have recent: "recent_jobs env_2024 [acme_job, globex_job, initech_job]
     = [initech_job, acme_job, globex_job]"
    by (simp add: recent_jobs_def env_2024_def sqlite_order_by_desc_def acme_job_def globex_job_def
        initech_job_def)
  show ?thesis
    using db recent home_recent_jobs_by_insertion [OF db]
    by (simp add: acme_job_def globex_job_def)
qed

lemma fold_status_counts:
  "fold (\<lambda>status_choice statuses.
           let s = fst status_choice;
               count = length (filter_by_status s rows)
           in if count > 0 then statuses(s \<mapsto> count) else statuses) choices m s =
     (if s \<in> set (map fst choices) \<and> filter_by_status s rows \<noteq> []
      then Some (length (filter_by_status s rows)) else m s)"
  by (induction choices arbitrary: m) (auto simp: Let_def)

lemma statuses_eq:
  "statuses rows s =
     (if s \<in> set (map fst STATUS_CHOICES) \<and> filter_by_status s rows \<noteq> []
      then Some (length (filter_by_status s rows)) else None)"
  unfolding statuses_def by (simp only: fold_status_counts)

text \<open>
  C6. When every row's status is one of the status choices, the dashboard's mapping has
  an entry for a status exactly when some row has that status. In every table an entry
  holds the number of rows of that status, which is positive: a status with no row has no
  entry.
\<close>

theorem statuses_entries:
  assumes "\<forall>j\<in>set rows. status j \<in> set (map fst STATUS_CHOICES)"
  shows "(\<exists>total recent. home e rows = render_template (dashboard_html total recent (statuses rows)))
    \<and> (s \<in> dom (statuses rows)) = (\<exists>j\<in>set rows. status j = s)
    \<and> (\<forall>n. statuses rows s = Some n \<longrightarrow> n = length (filter (\<lambda>j. status j = s) rows) \<and> 0 < n)"
proof -
  have "(s \<in> dom (statuses rows)) = (\<exists>j\<in>set rows. status j = s)"
    using assms by (auto simp: statuses_eq filter_by_status_Nil dom_def)
  moreover have "\<forall>n. statuses rows s = Some n \<longrightarrow> n = length (filter (\<lambda>j. status j = s) rows) \<and> 0 < n"
    by (auto simp: statuses_eq filter_by_status_def split: if_splits)
  ultimately show ?thesis by (simp add: home_def)
qed

lemma sample_statuses_known:
  "\<forall>j\<in>set [acme_job, globex_job]. status j \<in> set (map fst STATUS_CHOICES)"
  by (simp add: acme_job_def globex_job_def STATUS_CHOICES_def)

theorem statuses_entries_witness:
  "status acme_job \<in> set (map fst STATUS_CHOICES)
   \<and> status globex_job \<in> set (map fst STATUS_CHOICES)
   \<and> statuses [acme_job, globex_job] ''Interviewing'' = Some 1
   \<and> ''Interviewing'' \<in> dom (statuses [acme_job, globex_job])
   \<and> ''Rejected Application'' \<notin> dom (statuses [acme_job, globex_job])"
proof -
  have one: "statuses [acme_job, globex_job] ''Interviewing'' = Some 1"
    by (simp add: statuses_eq STATUS_CHOICES_def filter_by_status_def acme_job_def globex_job_def)
  show ?thesis
    using sample_statuses_known one
      statuses_entries [OF sample_statuses_known, of env_2024 "''Interviewing''"]
      statuses_entries [OF sample_statuses_known, of env_2024 "''Rejected Application''"]
    by (simp add: acme_job_def globex_job_def)
qed

text \<open>
  Add and Edit keep every row's status among the status choices, so the tables they build
  from the empty one meet the hypothesis of the theorem above.
\<close>

lemma add_job_keeps_statuses_known:
  assumes "\<forall>j\<in>set rows. status j \<in> set (map fst STATUS_CHOICES)"
  shows "\<forall>j\<in>set (snd (add_job e r rows)). status j \<in> set (map fst STATUS_CHOICES)"
proof (cases "fst (validate_on_submit r (JobForm_init e r))")
  case True
  from validated_not_null [OF True] obtain d s c p u where
    "not_null (snd (validate_on_submit r (JobForm_init e r))) = Some (d, s, c, p, u)"
    "s \<in> set (map fst STATUS_CHOICES)" by blast
  then show ?thesis
    using True assms by (simp add: add_job_def session_add_def case_prod_beta)
next
  case False
  then show ?thesis using assms by (simp add: add_job_invalid)
qed

lemma session_update_statuses:
  "status j' \<in> S \<Longrightarrow> \<forall>j\<in>set rows. status j \<in> S \<Longrightarrow>
   \<forall>j\<in>set (session_update i j' rows). status j \<in> S"
  by (auto simp: session_update_def)

lemma job_edit_keeps_statuses_known:
  assumes known: "\<forall>j\<in>set rows. status j \<in> set (map fst STATUS_CHOICES)"
  shows "\<forall>j\<in>set (snd (job_edit e r i rows)). status j \<in> set (map fst STATUS_CHOICES)"
proof (cases "query_get i rows")
  case None
  then show ?thesis using known by (simp add: job_edit_def get_or_404_def)
next
  case (Some j)
  show ?thesis
  proof (cases "fst (validate_on_submit r (JobForm_init e r))")
    case True
    let ?f = "snd (validate_on_submit r (JobForm_init e r))"
    from validated_not_null [OF True] obtain d s c p u where
      nn: "not_null ?f = Some (d, s, c, p, u)"
      and s: "s \<in> set (map fst STATUS_CHOICES)" by blast
    define j' where "j' = j\<lparr> application_date := d, status := s, company := c, position := p,
                 resume_used := u, job_url := job_url_data ?f,
                 job_description := job_description_data ?f, job_notes := notes_data ?f,
                 salary := salary_data ?f \<rparr>"
    have edit: "job_edit e r i rows = (redirect job_details_ep [i], session_update i j' rows)"
      using Some True nn
      by (simp add: job_edit_def get_or_404_found assign_fields_def j'_def case_prod_beta)
    have "status j' \<in> set (map fst STATUS_CHOICES)"
      using s by (simp add: j'_def)
    from session_update_statuses [OF this known] show ?thesis
      by (simp only: edit snd_conv)
  next
    case False
    from job_edit_invalid [OF Some False] show ?thesis using known by auto
  qed
qed

subsection \<open>The routes of the application\<close>

lemma match_rules_Some_iff:
  "(\<exists>ep view_args. match_rules rules m p = Some (ep, view_args)) =
     list_ex (\<lambda>(rule, methods, ep). match_path rule p \<noteq> None \<and> m \<in> set methods) rules"
  by (induction rules) (auto split: option.splits)

text \<open>
  The claim C9 as stated fails at four requests that reach a view and that the
  specification's table does not have: \<^verbatim>\<open>GET /testpage\<close>, which the module routes to
  \<^verbatim>\<open>test_page\<close> and which answers 200; \<^verbatim>\<open>GET /static/style.css\<close>, routed to the static folder
  by the rule Flask registers; and \<^verbatim>\<open>HEAD /\<close> and \<^verbatim>\<open>OPTIONS /jobs\<close>, methods every rule gets.
\<close>

theorem routes_outside_the_table_counterexample:
  "url_match GET [''testpage''] = Some (view_function test_page_ep, [])
   \<and> test_page = body ''This page is only a test'' 200
   \<and> \<not> in_routes spec_routes GET [''testpage'']
   \<and> url_match GET [''static'', ''style.css''] = Some (static_endpoint, [filename_arg ''style.css''])
   \<and> \<not> in_routes spec_routes GET [''static'', ''style.css'']
   \<and> url_match HEAD [[]] = Some (view_function home_ep, [])
   \<and> \<not> in_routes spec_routes HEAD [[]]
   \<and> url_match OPTIONS [''jobs''] = Some (view_function jobs_ep, [])
   \<and> \<not> in_routes spec_routes OPTIONS [''jobs'']"
  by (simp add: url_match_def url_map_def add_url_rule_def in_routes_def spec_routes_def
      test_page_def path_converter_def)

text \<open>
  C9. A request is routed to a view exactly when its path matches a line of the
  specification's table, \<^verbatim>\<open>/testpage\<close> or \<^verbatim>\<open>/static/<path:filename>\<close>, and its method is the
  line's (GET for the two added paths), \<^verbatim>\<open>HEAD\<close> on a line of method GET, or \<^verbatim>\<open>OPTIONS\<close>. The
  HTTP surface is the six operations, the two health checks, the test page and the static
  folder, each also under \<^verbatim>\<open>HEAD\<close> and \<^verbatim>\<open>OPTIONS\<close>, and nothing else.
\<close>

theorem routes_of_the_application:
  "(\<exists>ep view_args. url_match m p = Some (ep, view_args))
     = answers (spec_routes @ [(GET, [Lit ''testpage'']), (GET, [Lit ''static'', PathConverter])]) m p"
  unfolding url_match_def match_rules_Some_iff
  unfolding url_map_def add_url_rule_def answers_def spec_routes_def
  by (cases m) auto

end
